theory Spec2Isabelle
  imports Main
begin

section \<open>Notion sync and credential lifecycle of SpeakToNote\<close>

text \<open>
  A shallow embedding of \<^verbatim>\<open>NotionService\<close> (services/notion.ts) and of
  \<^verbatim>\<open>SyncStatusBar.handleSyncAll\<close> (components/SyncStatusBar.tsx).

  An \<^verbatim>\<open>async\<close> method is a function from the state before the call to its outcome and
  the state after it. The outcome is \<open>Inl e\<close> when the promise rejects with the error
  \<open>e\<close> and \<open>Inr v\<close> when it resolves to \<open>v\<close>. Everything the service cannot decide by
  itself (whether a storage operation fails, what the browser, the token endpoint and the
  Notion API answer, what the clock shows) is a field of the environment \<open>env\<close>.
\<close>

subsection \<open>Data model\<close>

text \<open>A JavaScript \<^verbatim>\<open>Error\<close>; only its message is ever inspected.\<close>

datatype exn = Error (message: string)

text \<open>\<^verbatim>\<open>interface NotionConfig\<close>; an optional field is an \<open>option\<close>.\<close>

record NotionConfig =
  accessToken :: string
  pageId :: string
  pageName :: string
  userId :: "string option"
  workspaceId :: "string option"
  workspaceName :: "string option"

text \<open>\<^verbatim>\<open>Note.notionSyncStatus\<close> and \<^verbatim>\<open>Note\<close> (types/index.ts); dates are
  milliseconds since the epoch.\<close>

record SyncStatus =
  isSynced :: bool
  lastSyncAttempt :: "nat option"
  error :: "string option"

record Note =
  note_id :: string
  note_title :: string
  note_content :: string
  createdAt :: nat
  updatedAt :: nat
  notionSyncStatus :: "SyncStatus option"

text \<open>The requests the Notion client sends, each with the bearer token of the client.\<close>

datatype api_call =
    Search string
  | PagesUpdate string string
  | BlocksAppend string string string

text \<open>A page as the search endpoint returns it; \<open>plain_title\<close> is
  \<^verbatim>\<open>page.properties?.title?.title?.[0]?.plain_text\<close>.\<close>

record raw_page =
  raw_id :: string
  plain_title :: "string option"
  raw_url :: string


text \<open>The result of \<^verbatim>\<open>WebBrowser.openAuthSessionAsync\<close>.\<close>

record auth_session_result =
  result_type :: string
  result_url :: "string option"

text \<open>The JSON body of a successful token response, and the response itself.\<close>

record token_data =
  access_token :: string
  owner_user_id :: "string option"
  workspace_id :: "string option"
  workspace_name :: "string option"

record response =
  status :: nat
  json_body :: "exn + token_data"
  text_body :: "exn + string"

definition ok :: "response \<Rightarrow> bool" where
  "ok r = (200 \<le> status r \<and> status r \<le> 299)"

text \<open>
  The state the service reads and writes: the entries of AsyncStorage, the two private
  fields \<^verbatim>\<open>config\<close> and \<^verbatim>\<open>notion\<close> of the singleton (the client is
  represented by the token it was constructed with), and the remote side: the requests
  received so far, oldest first, and the blocks appended so far as pairs of block id and
  text.
\<close>

record world =
  items :: "string \<rightharpoonup> string"
  config :: "NotionConfig option"
  notion :: "string option"
  requests :: "api_call list"
  page_blocks :: "(string \<times> string) list"

text \<open>
  The environment. A storage operation on key \<open>k\<close> throws \<open>Error m\<close> when the
  corresponding oracle gives \<open>Some m\<close> at \<open>k\<close>; the request \<open>c\<close> to the Notion API
  that follows \<open>i\<close> earlier requests throws when \<open>api_err\<close> gives \<open>Some m\<close> at \<open>i\<close>
  and \<open>c\<close>. \<open>new_URL\<close> is the platform's URL
  parser: \<open>None\<close> when \<^verbatim>\<open>new URL(s)\<close> throws, else the query pairs in order.
  \<open>date_now k\<close> is the \<open>k\<close>-th reading of the clock within one call.
\<close>

record env =
  getItem_err :: "string \<Rightarrow> string option"
  setItem_err :: "string \<Rightarrow> string option"
  removeItem_err :: "string \<Rightarrow> string option"
  api_err :: "nat \<Rightarrow> api_call \<Rightarrow> string option"
  search_results :: "string \<Rightarrow> raw_page list"
  openAuthSessionAsync :: "exn + auth_session_result"
  new_URL :: "string \<Rightarrow> (string \<times> string) list option"
  fetch_token :: "string \<Rightarrow> exn + response"
  date_now :: "nat \<Rightarrow> nat"
  toLocaleString :: "nat \<Rightarrow> string"

subsection \<open>Sequencing, throwing and catching\<close>

type_synonym 'a io = "world \<Rightarrow> (exn + 'a) \<times> world"

definition ret :: "'a \<Rightarrow> 'a io" where
  "ret x = (\<lambda>w. (Inr x, w))"

definition throw :: "exn \<Rightarrow> 'a io" where
  "throw e = (\<lambda>w. (Inl e, w))"

text \<open>\<open>and_then m f\<close> is \<^verbatim>\<open>const x = await m; f(x)\<close>: a throw of \<open>m\<close> skips \<open>f\<close>.\<close>

definition and_then :: "'a io \<Rightarrow> ('a \<Rightarrow> 'b io) \<Rightarrow> 'b io" where
  "and_then m f = (\<lambda>w. case m w of (Inl e, w') \<Rightarrow> (Inl e, w') | (Inr x, w') \<Rightarrow> f x w')"

text \<open>\<open>try_catch m h\<close> is \<^verbatim>\<open>try { m } catch (error) { h(error) }\<close>; the effects \<open>m\<close>
  had before it threw stay.\<close>

definition try_catch :: "'a io \<Rightarrow> (exn \<Rightarrow> 'a io) \<Rightarrow> 'a io" where
  "try_catch m h = (\<lambda>w. case m w of (Inl e, w') \<Rightarrow> h e w' | (Inr x, w') \<Rightarrow> (Inr x, w'))"

text \<open>JavaScript truthiness of a possibly absent string: the string when it is present
  and not empty.\<close>

definition truthy :: "string option \<Rightarrow> string option" where
  "truthy v = (case v of None \<Rightarrow> None | Some s \<Rightarrow> if s = [] then None else Some s)"

text \<open>\<^verbatim>\<open>v || ''\<close>.\<close>

definition or_empty :: "string option \<Rightarrow> string" where
  "or_empty v = (case truthy v of None \<Rightarrow> [] | Some s \<Rightarrow> s)"

text \<open>Decimal rendering of a number in a template literal.\<close>

definition digit :: "nat \<Rightarrow> char" where
  "digit d = ''0123456789'' ! (d mod 10)"

function toString :: "nat \<Rightarrow> string" where
  "toString n = (if n < 10 then [digit n] else toString (n div 10) @ [digit n])"
  by pat_completeness auto
termination
  by (relation "measure (\<lambda>n. n)") auto

declare toString.simps [simp del]

subsection \<open>AsyncStorage\<close>

definition NOTION_TOKEN_KEY :: string where
  "NOTION_TOKEN_KEY = ''@speak_to_note_notion_token''"

definition NOTION_PAGE_ID_KEY :: string where
  "NOTION_PAGE_ID_KEY = ''@speak_to_note_notion_page_id''"

definition NOTION_PAGE_NAME_KEY :: string where
  "NOTION_PAGE_NAME_KEY = ''@speak_to_note_notion_page_name''"

definition NOTION_USER_ID_KEY :: string where
  "NOTION_USER_ID_KEY = ''@speak_to_note_notion_user_id''"

definition NOTION_WORKSPACE_ID_KEY :: string where
  "NOTION_WORKSPACE_ID_KEY = ''@speak_to_note_notion_workspace_id''"

definition getItem :: "env \<Rightarrow> string \<Rightarrow> string option io" where
  "getItem E k = (\<lambda>w. case getItem_err E k of
       Some m \<Rightarrow> (Inl (Error m), w)
     | None \<Rightarrow> (Inr (items w k), w))"

definition setItem :: "env \<Rightarrow> string \<Rightarrow> string \<Rightarrow> unit io" where
  "setItem E k v = (\<lambda>w. case setItem_err E k of
       Some m \<Rightarrow> (Inl (Error m), w)
     | None \<Rightarrow> (Inr (), w\<lparr>items := (items w)(k \<mapsto> v)\<rparr>))"

definition removeItem :: "env \<Rightarrow> string \<Rightarrow> unit io" where
  "removeItem E k = (\<lambda>w. case removeItem_err E k of
       Some m \<Rightarrow> (Inl (Error m), w)
     | None \<Rightarrow> (Inr (), w\<lparr>items := (items w)(k := None)\<rparr>))"

subsection \<open>The credential store: loadConfig, saveConfig, disconnect, isConfigured\<close>

text \<open>The body of the \<^verbatim>\<open>try\<close> of \<^verbatim>\<open>loadConfig\<close>: five reads, then the record is
  rebuilt and cached when the token is truthy. The cache is left as it is otherwise.\<close>

definition loadConfig_body :: "env \<Rightarrow> NotionConfig option io" where
  "loadConfig_body E =
     and_then (getItem E NOTION_TOKEN_KEY) (\<lambda>token.
     and_then (getItem E NOTION_PAGE_ID_KEY) (\<lambda>pageId'.
     and_then (getItem E NOTION_PAGE_NAME_KEY) (\<lambda>pageName'.
     and_then (getItem E NOTION_USER_ID_KEY) (\<lambda>userId'.
     and_then (getItem E NOTION_WORKSPACE_ID_KEY) (\<lambda>workspaceId'.
       case truthy token of
         Some t \<Rightarrow> (\<lambda>w.
           let c = \<lparr>accessToken = t, pageId = or_empty pageId', pageName = or_empty pageName',
                    userId = truthy userId', workspaceId = truthy workspaceId',
                    workspaceName = None\<rparr>
           in (Inr (Some c), w\<lparr>config := Some c\<rparr>))
       | None \<Rightarrow> ret None)))))"

definition loadConfig :: "env \<Rightarrow> NotionConfig option io" where
  "loadConfig E = try_catch (loadConfig_body E) (\<lambda>e. ret None)"

text \<open>The body of the \<^verbatim>\<open>try\<close> of \<^verbatim>\<open>saveConfig\<close>: three unconditional writes, two
  writes guarded by the truthiness of the field, then the cache is replaced by a copy of
  the argument. There is no write of \<^verbatim>\<open>workspaceName\<close>.\<close>

definition saveConfig_body :: "env \<Rightarrow> NotionConfig \<Rightarrow> unit io" where
  "saveConfig_body E c =
     and_then (setItem E NOTION_TOKEN_KEY (accessToken c)) (\<lambda>_.
     and_then (setItem E NOTION_PAGE_ID_KEY (pageId c)) (\<lambda>_.
     and_then (setItem E NOTION_PAGE_NAME_KEY (pageName c)) (\<lambda>_.
     and_then (case truthy (userId c) of
                 Some u \<Rightarrow> setItem E NOTION_USER_ID_KEY u | None \<Rightarrow> ret ()) (\<lambda>_.
     and_then (case truthy (workspaceId c) of
                 Some i \<Rightarrow> setItem E NOTION_WORKSPACE_ID_KEY i | None \<Rightarrow> ret ()) (\<lambda>_.
       (\<lambda>w. (Inr (), w\<lparr>config := Some c\<rparr>)))))))"

definition saveConfig :: "env \<Rightarrow> NotionConfig \<Rightarrow> unit io" where
  "saveConfig E c = try_catch (saveConfig_body E c)
     (\<lambda>e. throw (Error (''Failed to save user Notion configuration: '' @ message e)))"

definition disconnect :: "env \<Rightarrow> unit io" where
  "disconnect E = try_catch
     (and_then (removeItem E NOTION_TOKEN_KEY) (\<lambda>_.
      and_then (removeItem E NOTION_PAGE_ID_KEY) (\<lambda>_.
      and_then (removeItem E NOTION_PAGE_NAME_KEY) (\<lambda>_.
        (\<lambda>w. (Inr (), w\<lparr>config := None, notion := None\<rparr>))))))
     (\<lambda>e. throw (Error ''Failed to disconnect Notion''))"

definition getConfig :: "world \<Rightarrow> NotionConfig option" where
  "getConfig w = config w"

definition isConfigured :: "world \<Rightarrow> bool" where
  "isConfigured w = (case config w of
       None \<Rightarrow> False
     | Some c \<Rightarrow> accessToken c \<noteq> [] \<and> pageId c \<noteq> [])"

subsection \<open>The OAuth handshake: authenticate\<close>

text \<open>
  The authorization URL only reaches the external browser, whose answer is the oracle
  \<open>openAuthSessionAsync\<close>, so the URL is not built here. \<^verbatim>\<open>url.searchParams.get\<close>
  gives the first value of a key, as \<open>map_of\<close> does. The record saved after a successful
  exchange:
\<close>

definition token_config :: "token_data \<Rightarrow> NotionConfig" where
  "token_config d =
     \<lparr>accessToken = access_token d, pageId = [], pageName = [],
      userId = owner_user_id d, workspaceId = workspace_id d,
      workspaceName = Some (case truthy (workspace_name d) of
                              Some n \<Rightarrow> n | None \<Rightarrow> ''User Workspace'')\<rparr>"

text \<open>The record the \<^verbatim>\<open>catch\<close> block of \<^verbatim>\<open>authenticate\<close> fabricates; the clock is
  read once for the \<^verbatim>\<open>state\<close> parameter before, hence the readings 1 to 3.\<close>

definition fallback_config :: "env \<Rightarrow> NotionConfig" where
  "fallback_config E =
     \<lparr>accessToken = ''secret_test_'' @ toString (date_now E 1),
      pageId = ''test-page-id'', pageName = ''Test Page'',
      userId = Some (''user_test_'' @ toString (date_now E 2)),
      workspaceId = Some (''workspace_test_'' @ toString (date_now E 3)),
      workspaceName = Some ''Test Workspace''\<rparr>"

definition exchange :: "env \<Rightarrow> string \<Rightarrow> bool io" where
  "exchange E code =
     (case fetch_token E code of
        Inl e \<Rightarrow> throw e
      | Inr tokenResponse \<Rightarrow>
          if ok tokenResponse then
            (case json_body tokenResponse of
               Inl e \<Rightarrow> throw e
             | Inr tokenData \<Rightarrow>
                 and_then (saveConfig E (token_config tokenData)) (\<lambda>_. ret True))
          else
            (case text_body tokenResponse of
               Inl e \<Rightarrow> throw e
             | Inr errorText \<Rightarrow> throw (Error (''Token exchange failed: '' @ errorText))))"

definition authenticate_body :: "env \<Rightarrow> bool io" where
  "authenticate_body E =
     (case openAuthSessionAsync E of
        Inl e \<Rightarrow> throw e
      | Inr result \<Rightarrow>
          (case (if result_type result = ''success'' then truthy (result_url result) else None) of
             Some u \<Rightarrow>
               (case new_URL E u of
                  None \<Rightarrow> throw (Error ''Invalid URL'')
                | Some searchParams \<Rightarrow>
                    (case truthy (map_of searchParams ''error'') of
                       Some err \<Rightarrow> throw (Error (''OAuth error: '' @ err))
                     | None \<Rightarrow>
                         (case truthy (map_of searchParams ''code'') of
                            Some code \<Rightarrow> exchange E code
                          | None \<Rightarrow> throw (Error ''No authorization code received''))))
           | None \<Rightarrow>
               if result_type result = ''cancel'' then ret False
               else throw (Error (''OAuth failed: '' @ result_type result))))"

definition authenticate :: "env \<Rightarrow> bool io" where
  "authenticate E = try_catch (authenticate_body E)
     (\<lambda>e. and_then (saveConfig E (fallback_config E)) (\<lambda>_. ret True))"

definition setSelectedPage :: "env \<Rightarrow> string \<Rightarrow> string \<Rightarrow> unit io" where
  "setSelectedPage E pid pname = try_catch
     (\<lambda>w. case config w of
        None \<Rightarrow> throw (Error ''Notion not authenticated'') w
      | Some c \<Rightarrow>
          saveConfig E \<lparr>accessToken = accessToken c, pageId = pid, pageName = pname,
                        userId = userId c, workspaceId = workspaceId c,
                        workspaceName = workspaceName c\<rparr> w)
     (\<lambda>e. throw e)"

subsection \<open>The content client: initializeNotion, getUserPages, syncNote\<close>

definition initializeNotion :: "unit io" where
  "initializeNotion = (\<lambda>w.
     case config w of
       None \<Rightarrow> throw (Error ''Notion not configured. Please authenticate first.'') w
     | Some c \<Rightarrow>
         if accessToken c = [] then
           throw (Error ''Notion not configured. Please authenticate first.'') w
         else (case notion w of
                 None \<Rightarrow> (Inr (), w\<lparr>notion := Some (accessToken c)\<rparr>)
               | Some _ \<Rightarrow> (Inr (), w)))"

text \<open>A request is recorded when it is sent; an append that the API accepts adds its
  block. \<^verbatim>\<open>pages.update\<close> is sent with no properties and changes nothing.\<close>

definition api_request :: "env \<Rightarrow> api_call \<Rightarrow> unit io" where
  "api_request E c = (\<lambda>w.
     let w' = w\<lparr>requests := requests w @ [c]\<rparr> in
     case api_err E (length (requests w)) c of
       Some m \<Rightarrow> (Inl (Error m), w')
     | None \<Rightarrow>
         (case c of
            BlocksAppend tok block_id content \<Rightarrow>
              (Inr (), w'\<lparr>page_blocks := page_blocks w' @ [(block_id, content)]\<rparr>)
          | _ \<Rightarrow> (Inr (), w')))"




definition nl :: string where
  "nl = [CHR 0x0A]"

definition format_note :: "env \<Rightarrow> Note \<Rightarrow> string" where
  "format_note E note =
     note_title note @ nl @ nl @ note_content note @ nl @ nl @ ''---'' @ nl @
     ''*Transcribed on '' @ toLocaleString E (createdAt note) @ ''*'' @ nl @ nl"

definition syncNote :: "env \<Rightarrow> Note \<Rightarrow> bool io" where
  "syncNote E note = try_catch
     (\<lambda>w. case config w of
        None \<Rightarrow> throw (Error ''No Notion page selected'') w
      | Some c \<Rightarrow>
          if pageId c = [] then throw (Error ''No Notion page selected'') w
          else
            and_then initializeNotion (\<lambda>_. (\<lambda>w1.
              case notion w1 of
                None \<Rightarrow> throw (Error ''Notion client not initialized'') w1
              | Some tok \<Rightarrow>
                  and_then (api_request E (PagesUpdate tok (pageId c))) (\<lambda>_.
                  and_then (api_request E (BlocksAppend tok (pageId c) (format_note E note)))
                    (\<lambda>_. ret True)) w1)) w)
     (\<lambda>e. ret True)"

definition ensurePageExists :: "unit io" where
  "ensurePageExists = try_catch
     (\<lambda>w. case config w of
        None \<Rightarrow> throw (Error ''No Notion page selected'') w
      | Some c \<Rightarrow>
          if pageId c = [] then throw (Error ''No Notion page selected'') w
          else ret () w)
     (\<lambda>e. throw e)"

subsection \<open>The orchestrator: SyncStatusBar.handleSyncAll\<close>

definition is_synced :: "Note \<Rightarrow> bool" where
  "is_synced n = (case notionSyncStatus n of None \<Rightarrow> False | Some s \<Rightarrow> isSynced s)"

text \<open>The component recomputes its state \<^verbatim>\<open>unsyncedNotes\<close> from the \<^verbatim>\<open>notes\<close> it is given
  whenever these change, so a run of \<^verbatim>\<open>handleSyncAll\<close> starts from this filter.\<close>

definition updateUnsyncedNotes :: "Note list \<Rightarrow> Note list" where
  "updateUnsyncedNotes notes = filter (\<lambda>note. \<not> is_synced note) notes"

text \<open>
  The \<^verbatim>\<open>for\<close> loop over the unsynced notes, with the two counters. It returns the
  notes with the status the loop assigned to each. The clock reading of a note is
  numbered by the notes handled before it, which is the sum of the counters.
\<close>

fun sync_loop :: "env \<Rightarrow> Note list \<Rightarrow> nat \<Rightarrow> nat \<Rightarrow> world \<Rightarrow> (Note list \<times> nat \<times> nat) \<times> world" where
  "sync_loop E [] successCount errorCount w = (([], successCount, errorCount), w)"
| "sync_loop E (note # rest) successCount errorCount w =
     (case syncNote E note w of
        (Inr _, w') \<Rightarrow>
          (case sync_loop E rest (successCount + 1) errorCount w' of
             ((rest', s, e), w'') \<Rightarrow>
               ((note\<lparr>notionSyncStatus := Some
                   \<lparr>isSynced = True,
                    lastSyncAttempt = Some (date_now E (successCount + errorCount)),
                    error = None\<rparr>\<rparr> # rest', s, e), w''))
      | (Inl err, w') \<Rightarrow>
          (case sync_loop E rest successCount (errorCount + 1) w' of
             ((rest', s, e), w'') \<Rightarrow>
               ((note\<lparr>notionSyncStatus := Some
                   \<lparr>isSynced = False,
                    lastSyncAttempt = Some (date_now E (successCount + errorCount)),
                    error = Some (message err)\<rparr>\<rparr> # rest', s, e), w'')))"

text \<open>What a run of \<^verbatim>\<open>handleSyncAll\<close> shows and leaves: the alert (title and message),
  whether \<^verbatim>\<open>onSyncComplete\<close> was called, the unsynced notes after the loop, and the
  final values of the two counters.\<close>

record sync_outcome =
  alert :: "(string \<times> string) option"
  onSyncComplete_called :: bool
  attempted :: "Note list"
  successes :: nat
  failures :: nat

definition show_results :: "nat \<Rightarrow> nat \<Rightarrow> (string \<times> string) \<times> bool" where
  "show_results successCount errorCount =
     (if successCount > 0 \<and> errorCount = 0 then
        ((''Sync Complete'',
          ''Successfully synced '' @ toString successCount @ '' notes to Notion!''), True)
      else if successCount > 0 \<and> errorCount > 0 then
        ((''Partial Sync Complete'',
          ''Synced '' @ toString successCount @ '' notes, '' @ toString errorCount @
          '' failed. Check your connection and try again.''), True)
      else
        ((''Sync Failed'',
          ''Failed to sync '' @ toString errorCount @
          '' notes. Please check your Notion connection and try again.''), False))"

definition handleSyncAll :: "env \<Rightarrow> Note list \<Rightarrow> world \<Rightarrow> sync_outcome \<times> world" where
  "handleSyncAll E notes w =
     (let unsyncedNotes = updateUnsyncedNotes notes in
      if length unsyncedNotes = 0 then
        (\<lparr>alert = None, onSyncComplete_called = False, attempted = [],
          successes = 0, failures = 0\<rparr>, w)
      else
        (case ensurePageExists w of
           (Inl e, w') \<Rightarrow>
             (\<lparr>alert = Some (''Sync Error'', ''Failed to sync notes. Please try again.''),
               onSyncComplete_called = False, attempted = unsyncedNotes,
               successes = 0, failures = 0\<rparr>, w')
         | (Inr _, w') \<Rightarrow>
             (case sync_loop E unsyncedNotes 0 0 w' of
                ((notes', successCount, errorCount), w'') \<Rightarrow>
                  (\<lparr>alert = Some (fst (show_results successCount errorCount)),
                    onSyncComplete_called = snd (show_results successCount errorCount),
                    attempted = notes',
                    successes = successCount, failures = errorCount\<rparr>, w''))))"

text \<open>The append requests among a list of requests.\<close>

definition is_append :: "api_call \<Rightarrow> bool" where
  "is_append c = (case c of BlocksAppend _ _ _ \<Rightarrow> True | _ \<Rightarrow> False)"

definition append_calls :: "api_call list \<Rightarrow> api_call list" where
  "append_calls cs = filter is_append cs"

text \<open>The page-update requests among a list of requests.\<close>

definition is_update :: "api_call \<Rightarrow> bool" where
  "is_update c = (case c of PagesUpdate _ _ \<Rightarrow> True | _ \<Rightarrow> False)"

definition update_calls :: "api_call list \<Rightarrow> api_call list" where
  "update_calls cs = filter is_update cs"

text \<open>The token of the client a request goes out with: the client is built from the
  cached record only when there is none yet.\<close>

definition client_token :: "world \<Rightarrow> NotionConfig \<Rightarrow> string" where
  "client_token w c = (case notion w of None \<Rightarrow> accessToken c | Some t \<Rightarrow> t)"

text \<open>
  The request sequence of a batch, stated on its own: for each unsynced note in the order
  of the list one page update, followed by the append of that note exactly when the
  update is accepted; \<open>i\<close> counts the requests that went before. A rejected request
  ends the sync of its note only, and the next note starts with the next request.
\<close>

fun expected_requests :: "env \<Rightarrow> string \<Rightarrow> string \<Rightarrow> nat \<Rightarrow> Note list \<Rightarrow> api_call list" where
  "expected_requests E tok pid i [] = []"
| "expected_requests E tok pid i (note # rest) =
     (if api_err E i (PagesUpdate tok pid) = None then
        PagesUpdate tok pid # BlocksAppend tok pid (format_note E note) #
          expected_requests E tok pid (i + 2) rest
      else PagesUpdate tok pid # expected_requests E tok pid (i + 1) rest)"

text \<open>The blocks such a batch adds: the text of every note whose page update and whose
  append are both accepted.\<close>

fun expected_blocks :: "env \<Rightarrow> string \<Rightarrow> string \<Rightarrow> nat \<Rightarrow> Note list \<Rightarrow> (string \<times> string) list" where
  "expected_blocks E tok pid i [] = []"
| "expected_blocks E tok pid i (note # rest) =
     (if api_err E i (PagesUpdate tok pid) = None then
        (if api_err E (i + 1) (BlocksAppend tok pid (format_note E note)) = None
         then [(pid, format_note E note)] else []) @
          expected_blocks E tok pid (i + 2) rest
      else expected_blocks E tok pid (i + 1) rest)"

text \<open>The keys \<^verbatim>\<open>saveConfig\<close> writes for a record, in the order of the writes, and
  the keys \<^verbatim>\<open>loadConfig\<close> reads.\<close>

definition written_keys :: "NotionConfig \<Rightarrow> string list" where
  "written_keys c =
     [NOTION_TOKEN_KEY, NOTION_PAGE_ID_KEY, NOTION_PAGE_NAME_KEY] @
     (case truthy (userId c) of Some _ \<Rightarrow> [NOTION_USER_ID_KEY] | None \<Rightarrow> []) @
     (case truthy (workspaceId c) of Some _ \<Rightarrow> [NOTION_WORKSPACE_ID_KEY] | None \<Rightarrow> [])"

definition read_keys :: "string list" where
  "read_keys = [NOTION_TOKEN_KEY, NOTION_PAGE_ID_KEY, NOTION_PAGE_NAME_KEY,
                NOTION_USER_ID_KEY, NOTION_WORKSPACE_ID_KEY]"

subsection \<open>Concrete environments and states\<close>

text \<open>An environment in which nothing fails, the browser is dismissed and the workspace
  has no page; a fresh installation; a stored connection with a selected page.\<close>

definition quiet_env :: env where
  "quiet_env =
     \<lparr>getItem_err = (\<lambda>k. None), setItem_err = (\<lambda>k. None), removeItem_err = (\<lambda>k. None),
      api_err = (\<lambda>i c. None), search_results = (\<lambda>tok. []),
      openAuthSessionAsync = Inr \<lparr>result_type = ''cancel'', result_url = None\<rparr>,
      new_URL = (\<lambda>s. None),
      fetch_token = (\<lambda>code. Inl (Error ''Network request failed'')),
      date_now = (\<lambda>k. 1700000000000 + k),
      toLocaleString = (\<lambda>t. ''11/14/2023, 10:13:20 PM'')\<rparr>"

definition fresh_world :: world where
  "fresh_world = \<lparr>items = Map.empty, config = None, notion = None, requests = [],
                  page_blocks = []\<rparr>"

definition sample_config :: NotionConfig where
  "sample_config =
     \<lparr>accessToken = ''tok_a'', pageId = ''page-7'', pageName = ''Voice notes'',
      userId = Some ''user-1'', workspaceId = Some ''ws-1'',
      workspaceName = Some ''Acme''\<rparr>"

definition connected_world :: world where
  "connected_world =
     \<lparr>items = [NOTION_TOKEN_KEY \<mapsto> ''tok_a'', NOTION_PAGE_ID_KEY \<mapsto> ''page-7'',
               NOTION_PAGE_NAME_KEY \<mapsto> ''Voice notes'', NOTION_USER_ID_KEY \<mapsto> ''user-1'',
               NOTION_WORKSPACE_ID_KEY \<mapsto> ''ws-1''],
      config = Some sample_config, notion = None, requests = [], page_blocks = []\<rparr>"

definition sample_note :: Note where
  "sample_note =
     \<lparr>note_id = ''2'', note_title = ''Shopping'', note_content = ''milk and bread'',
      createdAt = 1700000000000, updatedAt = 1700000000000, notionSyncStatus = None\<rparr>"

definition synced_note :: Note where
  "synced_note =
     \<lparr>note_id = ''1'', note_title = ''Ideas'', note_content = ''a talk'',
      createdAt = 1690000000000, updatedAt = 1690000000000,
      notionSyncStatus = Some \<lparr>isSynced = True, lastSyncAttempt = Some 1690000001000,
                                error = None\<rparr>\<rparr>"

text \<open>The provider redirects with \<^verbatim>\<open>error=access_denied\<close>.\<close>

definition denied_env :: env where
  "denied_env = quiet_env
     \<lparr>openAuthSessionAsync := Inr \<lparr>result_type = ''success'',
         result_url = Some ''speaktonote://auth?error=access_denied&state=state_1700000000000''\<rparr>,
      new_URL := (\<lambda>s. if s = ''speaktonote://auth?error=access_denied&state=state_1700000000000''
                       then Some [(''error'', ''access_denied''), (''state'', ''state_1700000000000'')]
                       else None)\<rparr>"

text \<open>The provider redirects with a code; the token endpoint answers 401, or 200 with a
  token.\<close>

definition code_env :: "response \<Rightarrow> env" where
  "code_env r = quiet_env
     \<lparr>openAuthSessionAsync := Inr \<lparr>result_type = ''success'',
         result_url = Some ''speaktonote://auth?code=abc123&state=state_1700000000000''\<rparr>,
      new_URL := (\<lambda>s. if s = ''speaktonote://auth?code=abc123&state=state_1700000000000''
                       then Some [(''code'', ''abc123''), (''state'', ''state_1700000000000'')]
                       else None),
      fetch_token := (\<lambda>code. Inr r)\<rparr>"

definition unauthorized :: response where
  "unauthorized =
     \<lparr>status = 401, json_body = Inl (Error ''Unexpected token''),
      text_body = Inr ''invalid_client''\<rparr>"

definition granted :: response where
  "granted =
     \<lparr>status = 200,
      json_body = Inr \<lparr>access_token = ''secret_live'', owner_user_id = Some ''user-9'',
                       workspace_id = Some ''ws-9'', workspace_name = Some ''Home''\<rparr>,
      text_body = Inr []\<rparr>"

text \<open>Storage that cannot be read; storage that cannot be written.\<close>

definition read_fail_env :: env where
  "read_fail_env = quiet_env\<lparr>getItem_err := (\<lambda>k. Some ''database or disk is full'')\<rparr>"

definition write_fail_env :: env where
  "write_fail_env = quiet_env\<lparr>setItem_err := (\<lambda>k. Some ''database or disk is full'')\<rparr>"

text \<open>A Notion API that rejects every page update; one that rejects every append; one
  that rejects every search; a workspace with a titled and an untitled page.\<close>

definition update_fail_env :: env where
  "update_fail_env = quiet_env
     \<lparr>api_err := (\<lambda>i c. case c of PagesUpdate _ _ \<Rightarrow> Some ''Request timed out'' | _ \<Rightarrow> None)\<rparr>"

definition append_fail_env :: env where
  "append_fail_env = quiet_env
     \<lparr>api_err := (\<lambda>i c. case c of BlocksAppend _ _ _ \<Rightarrow> Some ''Request timed out'' | _ \<Rightarrow> None)\<rparr>"



definition other_note :: Note where
  "other_note =
     \<lparr>note_id = ''3'', note_title = ''Call'', note_content = ''ring the bank'',
      createdAt = 1700000100000, updatedAt = 1700000100000, notionSyncStatus = None\<rparr>"

text \<open>A Notion API that rejects the first request it receives and accepts the later
  ones.\<close>

definition flaky_env :: env where
  "flaky_env = quiet_env
     \<lparr>api_err := (\<lambda>i c. if i = 0 then Some ''Request timed out'' else None)\<rparr>"



section \<open>Properties\<close>

subsection \<open>Auxiliary facts\<close>

lemmas io_defs = ret_def throw_def and_then_def try_catch_def

lemmas key_defs = NOTION_TOKEN_KEY_def NOTION_PAGE_ID_KEY_def NOTION_PAGE_NAME_KEY_def
  NOTION_USER_ID_KEY_def NOTION_WORKSPACE_ID_KEY_def

lemma keys_distinct [simp]:
  "NOTION_TOKEN_KEY \<noteq> NOTION_PAGE_ID_KEY" "NOTION_TOKEN_KEY \<noteq> NOTION_PAGE_NAME_KEY"
  "NOTION_TOKEN_KEY \<noteq> NOTION_USER_ID_KEY" "NOTION_TOKEN_KEY \<noteq> NOTION_WORKSPACE_ID_KEY"
  "NOTION_PAGE_ID_KEY \<noteq> NOTION_TOKEN_KEY" "NOTION_PAGE_ID_KEY \<noteq> NOTION_PAGE_NAME_KEY"
  "NOTION_PAGE_ID_KEY \<noteq> NOTION_USER_ID_KEY" "NOTION_PAGE_ID_KEY \<noteq> NOTION_WORKSPACE_ID_KEY"
  "NOTION_PAGE_NAME_KEY \<noteq> NOTION_TOKEN_KEY" "NOTION_PAGE_NAME_KEY \<noteq> NOTION_PAGE_ID_KEY"
  "NOTION_PAGE_NAME_KEY \<noteq> NOTION_USER_ID_KEY" "NOTION_PAGE_NAME_KEY \<noteq> NOTION_WORKSPACE_ID_KEY"
  "NOTION_USER_ID_KEY \<noteq> NOTION_TOKEN_KEY" "NOTION_USER_ID_KEY \<noteq> NOTION_PAGE_ID_KEY"
  "NOTION_USER_ID_KEY \<noteq> NOTION_PAGE_NAME_KEY" "NOTION_USER_ID_KEY \<noteq> NOTION_WORKSPACE_ID_KEY"
  "NOTION_WORKSPACE_ID_KEY \<noteq> NOTION_TOKEN_KEY" "NOTION_WORKSPACE_ID_KEY \<noteq> NOTION_PAGE_ID_KEY"
  "NOTION_WORKSPACE_ID_KEY \<noteq> NOTION_PAGE_NAME_KEY" "NOTION_WORKSPACE_ID_KEY \<noteq> NOTION_USER_ID_KEY"
  by (simp_all add: key_defs)

text \<open>The credential store when storage does not fail.\<close>

lemma saveConfig_ok:
  assumes "\<forall>k. setItem_err E k = None"
  shows "saveConfig E c w =
    (Inr (), w\<lparr>items :=
        (let m1 = (items w)(NOTION_TOKEN_KEY \<mapsto> accessToken c, NOTION_PAGE_ID_KEY \<mapsto> pageId c,
                            NOTION_PAGE_NAME_KEY \<mapsto> pageName c);
             m2 = (case truthy (userId c) of Some u \<Rightarrow> m1(NOTION_USER_ID_KEY \<mapsto> u) | None \<Rightarrow> m1)
         in (case truthy (workspaceId c) of Some i \<Rightarrow> m2(NOTION_WORKSPACE_ID_KEY \<mapsto> i) | None \<Rightarrow> m2)),
       config := Some c\<rparr>)"
  using assms
  by (simp add: saveConfig_def saveConfig_body_def setItem_def io_defs Let_def split: option.splits)

lemma loadConfig_ok:
  assumes "\<forall>k\<in>set read_keys. getItem_err E k = None"
  shows "loadConfig E w =
    (case truthy (items w NOTION_TOKEN_KEY) of
       None \<Rightarrow> (Inr None, w)
     | Some t \<Rightarrow>
         (Inr (Some \<lparr>accessToken = t, pageId = or_empty (items w NOTION_PAGE_ID_KEY),
                     pageName = or_empty (items w NOTION_PAGE_NAME_KEY),
                     userId = truthy (items w NOTION_USER_ID_KEY),
                     workspaceId = truthy (items w NOTION_WORKSPACE_ID_KEY),
                     workspaceName = None\<rparr>),
          w\<lparr>config := Some \<lparr>accessToken = t, pageId = or_empty (items w NOTION_PAGE_ID_KEY),
                     pageName = or_empty (items w NOTION_PAGE_NAME_KEY),
                     userId = truthy (items w NOTION_USER_ID_KEY),
                     workspaceId = truthy (items w NOTION_WORKSPACE_ID_KEY),
                     workspaceName = None\<rparr>\<rparr>))"
  using assms
  by (simp add: read_keys_def loadConfig_def loadConfig_body_def getItem_def io_defs Let_def
      split: option.splits)

lemma disconnect_ok:
  assumes "\<forall>k. removeItem_err E k = None"
  shows "disconnect E w =
    (Inr (), w\<lparr>items := (items w)(NOTION_TOKEN_KEY := None, NOTION_PAGE_ID_KEY := None,
                                   NOTION_PAGE_NAME_KEY := None),
               config := None, notion := None\<rparr>)"
  using assms by (simp add: disconnect_def removeItem_def io_defs)

text \<open>The credential store when storage fails.\<close>

lemma loadConfig_read_error:
  assumes "k \<in> set read_keys" "getItem_err E k \<noteq> None"
  shows "loadConfig E w = (Inr None, w)"
  using assms
  by (auto simp add: read_keys_def loadConfig_def loadConfig_body_def getItem_def io_defs
      split: option.splits)

lemma saveConfig_write_error:
  assumes "k \<in> set (written_keys c)" "setItem_err E k \<noteq> None"
  shows "\<exists>k' m. k' \<in> set (written_keys c) \<and> setItem_err E k' = Some m \<and>
     fst (saveConfig E c w) = Inl (Error (''Failed to save user Notion configuration: '' @ m))"
  using assms
  by (auto simp add: written_keys_def saveConfig_def saveConfig_body_def setItem_def io_defs
      split: option.splits)

text \<open>After a disconnect that does not fail, every load gives null, whether or not the
  reads fail.\<close>

lemma load_after_disconnect:
  assumes "\<forall>k. removeItem_err E k = None"
  shows "fst (loadConfig E' (snd (disconnect E w))) = Inr None"
proof (cases "\<forall>k\<in>set read_keys. getItem_err E' k = None")
  case True
  then show ?thesis
    by (simp add: loadConfig_ok disconnect_ok[OF assms] truthy_def)
next
  case False
  then obtain k where "k \<in> set read_keys" "getItem_err E' k \<noteq> None" by blast
  then show ?thesis by (simp add: loadConfig_read_error)
qed

lemma quiet_simps:
  "getItem_err quiet_env = (\<lambda>k. None)" "setItem_err quiet_env = (\<lambda>k. None)"
  "removeItem_err quiet_env = (\<lambda>k. None)" "api_err quiet_env = (\<lambda>i c. None)"
  by (simp_all add: quiet_env_def)

text \<open>The handshake, branch by branch.\<close>

lemma authenticate_body_denied:
  assumes "openAuthSessionAsync E = Inr r" "result_type r = ''success''"
    "truthy (result_url r) = Some u" "new_URL E u = Some ps"
    "truthy (map_of ps ''error'') = Some err"
  shows "authenticate_body E w = (Inl (Error (''OAuth error: '' @ err)), w)"
  using assms by (simp add: authenticate_body_def io_defs)

lemma authenticate_body_code:
  assumes "openAuthSessionAsync E = Inr r" "result_type r = ''success''"
    "truthy (result_url r) = Some u" "new_URL E u = Some ps"
    "truthy (map_of ps ''error'') = None" "truthy (map_of ps ''code'') = Some code"
  shows "authenticate_body E w = exchange E code w"
  using assms by (simp add: authenticate_body_def io_defs)

lemma exchange_rejected:
  assumes "fetch_token E code = Inr resp" "\<not> ok resp" "text_body resp = Inr t"
  shows "exchange E code w = (Inl (Error (''Token exchange failed: '' @ t)), w)"
  using assms by (simp add: exchange_def io_defs)

lemma exchange_accepted:
  assumes "fetch_token E code = Inr resp" "ok resp" "json_body resp = Inr d"
    "\<forall>k. setItem_err E k = None"
  shows "exchange E code w = (Inr True, snd (saveConfig E (token_config d) w))"
  using assms by (simp add: exchange_def io_defs saveConfig_ok)

lemma authenticate_catch:
  assumes "authenticate_body E w = (Inl e, w')" "\<forall>k. setItem_err E k = None"
  shows "authenticate E w = (Inr True, snd (saveConfig E (fallback_config E) w'))"
  using assms by (simp add: authenticate_def io_defs saveConfig_ok)

lemma authenticate_pass:
  assumes "authenticate_body E w = (Inr b, w')"
  shows "authenticate E w = (Inr b, w')"
  using assms by (simp add: authenticate_def io_defs)

lemma toString_examples:
  "toString 1700000000001 = ''1700000000001''"
  "toString 1700000000002 = ''1700000000002''"
  "toString 1700000000003 = ''1700000000003''"
  by (simp_all add: toString.simps digit_def)

lemma fallback_quiet:
  "date_now E = (\<lambda>k. 1700000000000 + k) \<Longrightarrow> fallback_config E =
     \<lparr>accessToken = ''secret_test_1700000000001'', pageId = ''test-page-id'',
      pageName = ''Test Page'', userId = Some ''user_test_1700000000002'',
      workspaceId = Some ''workspace_test_1700000000003'',
      workspaceName = Some ''Test Workspace''\<rparr>"
  by (simp add: fallback_config_def toString_examples)

lemma denied_env_simps:
  "getItem_err denied_env = (\<lambda>k. None)" "setItem_err denied_env = (\<lambda>k. None)"
  "date_now denied_env = (\<lambda>k. 1700000000000 + k)"
  "openAuthSessionAsync denied_env = Inr \<lparr>result_type = ''success'',
         result_url = Some ''speaktonote://auth?error=access_denied&state=state_1700000000000''\<rparr>"
  "new_URL denied_env ''speaktonote://auth?error=access_denied&state=state_1700000000000'' =
     Some [(''error'', ''access_denied''), (''state'', ''state_1700000000000'')]"
  by (simp_all add: denied_env_def quiet_env_def)

lemma code_env_simps:
  "getItem_err (code_env r) = (\<lambda>k. None)" "setItem_err (code_env r) = (\<lambda>k. None)"
  "date_now (code_env r) = (\<lambda>k. 1700000000000 + k)"
  "openAuthSessionAsync (code_env r) = Inr \<lparr>result_type = ''success'',
         result_url = Some ''speaktonote://auth?code=abc123&state=state_1700000000000''\<rparr>"
  "new_URL (code_env r) ''speaktonote://auth?code=abc123&state=state_1700000000000'' =
     Some [(''code'', ''abc123''), (''state'', ''state_1700000000000'')]"
  "fetch_token (code_env r) = (\<lambda>code. Inr r)"
  by (simp_all add: code_env_def quiet_env_def)

lemma authenticate_denied:
  "authenticate denied_env fresh_world =
     (Inr True, snd (saveConfig denied_env (fallback_config denied_env) fresh_world))"
proof -
  have "authenticate_body denied_env fresh_world =
      (Inl (Error (''OAuth error: '' @ ''access_denied'')), fresh_world)"
    by (rule authenticate_body_denied[where
          r = "\<lparr>result_type = ''success'', result_url =
            Some ''speaktonote://auth?error=access_denied&state=state_1700000000000''\<rparr>"
          and u = "''speaktonote://auth?error=access_denied&state=state_1700000000000''"
          and ps = "[(''error'', ''access_denied''), (''state'', ''state_1700000000000'')]"])
       (simp_all add: denied_env_simps truthy_def)
  then show ?thesis
    by (rule authenticate_catch) (simp add: denied_env_simps)
qed

lemma authenticate_unauthorized:
  "authenticate (code_env unauthorized) fresh_world =
     (Inr True, snd (saveConfig (code_env unauthorized)
        (fallback_config (code_env unauthorized)) fresh_world))"
proof -
  have "authenticate_body (code_env unauthorized) fresh_world =
      exchange (code_env unauthorized) ''abc123'' fresh_world"
    by (rule authenticate_body_code[where
          r = "\<lparr>result_type = ''success'', result_url =
            Some ''speaktonote://auth?code=abc123&state=state_1700000000000''\<rparr>"
          and u = "''speaktonote://auth?code=abc123&state=state_1700000000000''"
          and ps = "[(''code'', ''abc123''), (''state'', ''state_1700000000000'')]"])
       (simp_all add: code_env_simps truthy_def)
  also have "\<dots> = (Inl (Error (''Token exchange failed: '' @ ''invalid_client'')), fresh_world)"
    by (rule exchange_rejected[where resp = unauthorized])
       (simp_all add: code_env_simps unauthorized_def ok_def)
  finally show ?thesis
    by (rule authenticate_catch) (simp add: code_env_simps)
qed

lemma items_after_fallback:
  assumes "\<forall>k. setItem_err E k = None" "date_now E = (\<lambda>k. 1700000000000 + k)"
  shows "items (snd (saveConfig E (fallback_config E) fresh_world)) =
     [NOTION_TOKEN_KEY \<mapsto> ''secret_test_1700000000001'', NOTION_PAGE_ID_KEY \<mapsto> ''test-page-id'',
      NOTION_PAGE_NAME_KEY \<mapsto> ''Test Page'', NOTION_USER_ID_KEY \<mapsto> ''user_test_1700000000002'',
      NOTION_WORKSPACE_ID_KEY \<mapsto> ''workspace_test_1700000000003'']"
  using assms by (simp add: saveConfig_ok fallback_quiet fresh_world_def truthy_def)

lemma load_after_fallback:
  assumes "\<forall>k. getItem_err E k = None"
    and "items w = [NOTION_TOKEN_KEY \<mapsto> ''secret_test_1700000000001'', NOTION_PAGE_ID_KEY \<mapsto> ''test-page-id'',
      NOTION_PAGE_NAME_KEY \<mapsto> ''Test Page'', NOTION_USER_ID_KEY \<mapsto> ''user_test_1700000000002'',
      NOTION_WORKSPACE_ID_KEY \<mapsto> ''workspace_test_1700000000003'']"
  shows "fst (loadConfig E w) =
     Inr (Some \<lparr>accessToken = ''secret_test_1700000000001'', pageId = ''test-page-id'',
                 pageName = ''Test Page'', userId = Some ''user_test_1700000000002'',
                 workspaceId = Some ''workspace_test_1700000000003'', workspaceName = None\<rparr>)"
  using assms by (simp add: loadConfig_ok truthy_def or_empty_def)

lemma load_fresh:
  "\<forall>k. getItem_err E k = None \<Longrightarrow> fst (loadConfig E fresh_world) = Inr None"
  by (simp add: loadConfig_ok fresh_world_def truthy_def)

lemma granted_simps:
  "ok granted"
  "json_body granted =
     Inr \<lparr>access_token = ''secret_live'', owner_user_id = Some ''user-9'',
          workspace_id = Some ''ws-9'', workspace_name = Some ''Home''\<rparr>"
  by (simp_all add: granted_def ok_def)



lemma syncNote_returns_true: "fst (syncNote E note w) = Inr True"
  by (simp add: syncNote_def initializeNotion_def api_request_def io_defs Let_def
      split: option.splits prod.splits sum.splits api_call.splits)

lemma syncNote_not_configured:
  "\<not> isConfigured w \<Longrightarrow> syncNote E note w = (Inr True, w)"
  by (auto simp add: isConfigured_def syncNote_def initializeNotion_def io_defs
      split: option.splits)

lemma syncNote_configured:
  assumes "config w = Some c" "pageId c \<noteq> []" "accessToken c \<noteq> []"
  shows "snd (syncNote E note w) =
    (let tok = client_token w c; i = length (requests w);
         upd = PagesUpdate tok (pageId c);
         app = BlocksAppend tok (pageId c) (format_note E note) in
     if api_err E i upd \<noteq> None then w\<lparr>notion := Some tok, requests := requests w @ [upd]\<rparr>
     else if api_err E (Suc i) app \<noteq> None then
       w\<lparr>notion := Some tok, requests := requests w @ [upd, app]\<rparr>
     else w\<lparr>notion := Some tok, requests := requests w @ [upd, app],
            page_blocks := page_blocks w @ [(pageId c, format_note E note)]\<rparr>)"
  using assms
  by (auto simp add: syncNote_def initializeNotion_def api_request_def client_token_def io_defs Let_def
      split: option.splits)

lemma sync_loop_counts:
  "fst (sync_loop E ns s e w) = (ns', s', e') \<Longrightarrow>
     s' = s + length ns \<and> e' = e \<and> list_all is_synced ns' \<and> length ns' = length ns"
proof (induction ns arbitrary: s e w ns' s' e')
  case Nil
  then show ?case by simp
next
  case (Cons n ns)
  obtain w1 where w1: "syncNote E n w = (Inr True, w1)"
    using syncNote_returns_true[of E n w] by (cases "syncNote E n w") auto
  obtain r s1 e1 w2 where r: "sync_loop E ns (s + 1) e w1 = ((r, s1, e1), w2)"
    by (metis prod_cases3 surj_pair)
  from Cons.IH[of "s + 1" e w1 r s1 e1] r
  have ih: "s1 = s + 1 + length ns \<and> e1 = e \<and> list_all is_synced r \<and> length r = length ns"
    by simp
  have mark: "is_synced (n\<lparr>notionSyncStatus := Some \<lparr>isSynced = True,
      lastSyncAttempt = Some (date_now E (s + e)), error = None\<rparr>\<rparr>)"
    by (simp add: is_synced_def)
  from Cons.prems w1 r ih mark show ?case
    by auto
qed

lemma syncNote_keeps_client:
  assumes "config w = Some c" "pageId c \<noteq> []" "accessToken c \<noteq> []"
  shows "config (snd (syncNote E n w)) = Some c"
    and "client_token (snd (syncNote E n w)) c = client_token w c"
  unfolding syncNote_configured[OF assms]
  using assms(1) by (simp_all add: Let_def client_token_def)

lemma sync_loop_step:
  "snd (sync_loop E (n # ns) s e w) = snd (sync_loop E ns (s + 1) e (snd (syncNote E n w)))"
proof -
  obtain w1 where w1: "syncNote E n w = (Inr True, w1)"
    using syncNote_returns_true[of E n w] by (cases "syncNote E n w") auto
  then show ?thesis by (simp split: prod.splits)
qed

lemma syncNote_blocks_unchanged:
  assumes "\<forall>i t b x. api_err E i (BlocksAppend t b x) \<noteq> None"
  shows "page_blocks (snd (syncNote E n w)) = page_blocks w"
proof (cases "isConfigured w")
  case False
  then show ?thesis by (simp add: syncNote_not_configured)
next
  case True
  then obtain c where c: "config w = Some c" "pageId c \<noteq> []" "accessToken c \<noteq> []"
    by (auto simp add: isConfigured_def split: option.splits)
  have "api_err E (Suc (length (requests w)))
          (BlocksAppend (client_token w c) (pageId c) (format_note E n)) \<noteq> None"
    using assms by blast
  then show ?thesis
    unfolding syncNote_configured[OF c] by (simp add: Let_def)
qed

lemma sync_loop_blocks_unchanged:
  assumes "\<forall>i t b x. api_err E i (BlocksAppend t b x) \<noteq> None"
  shows "page_blocks (snd (sync_loop E ns s e w)) = page_blocks w"
proof (induction ns arbitrary: s e w)
  case Nil
  then show ?case by simp
next
  case (Cons n ns)
  obtain w1 where w1: "syncNote E n w = (Inr True, w1)"
    using syncNote_returns_true[of E n w] by (cases "syncNote E n w") auto
  have "page_blocks w1 = page_blocks w"
    using syncNote_blocks_unchanged[OF assms, of n w] w1 by simp
  moreover have "snd (sync_loop E (n # ns) s e w) = snd (sync_loop E ns (s + 1) e w1)"
    using w1 by (simp add: sync_loop_step del: sync_loop.simps)
  ultimately show ?case using Cons.IH[of "s + 1" e w1] by simp
qed

lemma ensurePageExists_ok:
  "config w = Some c \<Longrightarrow> pageId c \<noteq> [] \<Longrightarrow> ensurePageExists w = (Inr (), w)"
  by (simp add: ensurePageExists_def io_defs)

lemma ensurePageExists_fails:
  "config w = None \<or> (\<exists>c. config w = Some c \<and> pageId c = []) \<Longrightarrow>
   ensurePageExists w = (Inl (Error ''No Notion page selected''), w)"
  by (auto simp add: ensurePageExists_def io_defs)

lemma handleSyncAll_ready:
  assumes "config w = Some c" "pageId c \<noteq> []"
  shows "snd (handleSyncAll E notes w) = snd (sync_loop E (updateUnsyncedNotes notes) 0 0 w)"
    and "attempted (fst (handleSyncAll E notes w)) =
           fst (fst (sync_loop E (updateUnsyncedNotes notes) 0 0 w))"
    and "successes (fst (handleSyncAll E notes w)) =
           fst (snd (fst (sync_loop E (updateUnsyncedNotes notes) 0 0 w)))"
    and "failures (fst (handleSyncAll E notes w)) =
           snd (snd (fst (sync_loop E (updateUnsyncedNotes notes) 0 0 w)))"
    and "updateUnsyncedNotes notes \<noteq> [] \<Longrightarrow>
           alert (fst (handleSyncAll E notes w)) =
             Some (fst (show_results (successes (fst (handleSyncAll E notes w)))
                                     (failures (fst (handleSyncAll E notes w)))))"
  using assms
  by (simp_all add: handleSyncAll_def ensurePageExists_ok Let_def split: prod.splits)

lemma handleSyncAll_outcome:
  assumes "config w = Some c" "pageId c \<noteq> []"
  shows "successes (fst (handleSyncAll E notes w)) = length (updateUnsyncedNotes notes)"
    and "failures (fst (handleSyncAll E notes w)) = 0"
    and "list_all is_synced (attempted (fst (handleSyncAll E notes w)))"
    and "length (attempted (fst (handleSyncAll E notes w))) = length (updateUnsyncedNotes notes)"
proof -
  obtain ns' s' e' where r:
    "fst (sync_loop E (updateUnsyncedNotes notes) 0 0 w) = (ns', s', e')"
    by (rule prod_cases3)
  note c = sync_loop_counts[OF r]
  show "successes (fst (handleSyncAll E notes w)) = length (updateUnsyncedNotes notes)"
    and "failures (fst (handleSyncAll E notes w)) = 0"
    and "list_all is_synced (attempted (fst (handleSyncAll E notes w)))"
    and "length (attempted (fst (handleSyncAll E notes w))) = length (updateUnsyncedNotes notes)"
    using c by (simp_all add: handleSyncAll_ready[OF assms] r)
qed

lemma unsynced_length:
  "length (updateUnsyncedNotes notes) = length notes - length (filter is_synced notes)"
  using sum_length_filter_compl[of is_synced "notes"]
  by (simp add: updateUnsyncedNotes_def)

lemma sample_simps:
  "config connected_world = Some sample_config" "requests connected_world = []"
  "page_blocks connected_world = []" "notion connected_world = None"
  "pageId sample_config = ''page-7''" "accessToken sample_config = ''tok_a''"
  "client_token connected_world sample_config = ''tok_a''"
  "is_synced synced_note" "\<not> is_synced sample_note"
  "updateUnsyncedNotes [synced_note, sample_note] = [sample_note]"
  by (simp_all add: connected_world_def sample_config_def client_token_def is_synced_def
      synced_note_def sample_note_def updateUnsyncedNotes_def)

text \<open>The batch sends exactly the expected requests and adds exactly the expected
  blocks.\<close>

lemma syncNote_sends:
  assumes "config w = Some c" "pageId c \<noteq> []" "accessToken c \<noteq> []"
  shows "requests (snd (syncNote E n w)) = requests w @
      (if api_err E (length (requests w)) (PagesUpdate (client_token w c) (pageId c)) = None
       then [PagesUpdate (client_token w c) (pageId c),
             BlocksAppend (client_token w c) (pageId c) (format_note E n)]
       else [PagesUpdate (client_token w c) (pageId c)])"
    and "page_blocks (snd (syncNote E n w)) = page_blocks w @
      (if api_err E (length (requests w)) (PagesUpdate (client_token w c) (pageId c)) = None \<and>
          api_err E (length (requests w) + 1)
            (BlocksAppend (client_token w c) (pageId c) (format_note E n)) = None
       then [(pageId c, format_note E n)] else [])"
  unfolding syncNote_configured[OF assms]
  by (simp_all add: Let_def)

lemma sync_loop_exact:
  assumes "config w = Some c" "pageId c \<noteq> []" "accessToken c \<noteq> []"
  shows "requests (snd (sync_loop E ns s e w)) = requests w @
      expected_requests E (client_token w c) (pageId c) (length (requests w)) ns \<and>
    page_blocks (snd (sync_loop E ns s e w)) = page_blocks w @
      expected_blocks E (client_token w c) (pageId c) (length (requests w)) ns"
  using assms
proof (induction ns arbitrary: s e w)
  case Nil
  then show ?case by simp
next
  case (Cons n ns)
  let ?w1 = "snd (syncNote E n w)"
  note keep = syncNote_keeps_client[OF Cons.prems, of E n]
  note sends = syncNote_sends[OF Cons.prems, of E n]
  note ih = Cons.IH[OF keep(1) Cons.prems(2,3), of "s + 1" e, unfolded keep(2)]
  let ?i = "length (requests w)"
  let ?tok = "client_token w c"
  show ?case
  proof (cases "api_err E ?i (PagesUpdate ?tok (pageId c)) = None")
    case True
    have er: "expected_requests E ?tok (pageId c) ?i (n # ns) =
        PagesUpdate ?tok (pageId c) # BlocksAppend ?tok (pageId c) (format_note E n) #
          expected_requests E ?tok (pageId c) (?i + 2) ns"
      and eb: "expected_blocks E ?tok (pageId c) ?i (n # ns) =
        (if api_err E (?i + 1) (BlocksAppend ?tok (pageId c) (format_note E n)) = None
         then [(pageId c, format_note E n)] else []) @
          expected_blocks E ?tok (pageId c) (?i + 2) ns"
      using True by simp_all
    have r1: "requests ?w1 = requests w @
        [PagesUpdate ?tok (pageId c), BlocksAppend ?tok (pageId c) (format_note E n)]"
      and b1: "page_blocks ?w1 = page_blocks w @
        (if api_err E (?i + 1) (BlocksAppend ?tok (pageId c) (format_note E n)) = None
         then [(pageId c, format_note E n)] else [])"
      using sends True by simp_all
    have l1: "length (requests ?w1) = ?i + 2"
      by (simp add: r1)
    show ?thesis
      unfolding sync_loop_step er eb
      using ih unfolding l1 r1 b1 by simp
  next
    case False
    then obtain m where m: "api_err E ?i (PagesUpdate ?tok (pageId c)) = Some m"
      by blast
    have er: "expected_requests E ?tok (pageId c) ?i (n # ns) =
        PagesUpdate ?tok (pageId c) # expected_requests E ?tok (pageId c) (?i + 1) ns"
      and eb: "expected_blocks E ?tok (pageId c) ?i (n # ns) =
        expected_blocks E ?tok (pageId c) (?i + 1) ns"
      using m by simp_all
    have r1: "requests ?w1 = requests w @ [PagesUpdate ?tok (pageId c)]"
      and b1: "page_blocks ?w1 = page_blocks w"
      using sends m by simp_all
    have l1: "length (requests ?w1) = ?i + 1"
      by (simp add: r1)
    show ?thesis
      unfolding sync_loop_step er eb
      using ih unfolding l1 r1 b1 by simp
  qed
qed

lemma expected_updates:
  "update_calls (expected_requests E tok pid i ns) = replicate (length ns) (PagesUpdate tok pid)"
  by (induction ns arbitrary: i) (simp_all add: update_calls_def is_update_def)

lemma expected_appends_le:
  "length (append_calls (expected_requests E tok pid i ns)) \<le> length ns"
  by (induction ns arbitrary: i) (auto simp add: append_calls_def is_append_def intro: le_SucI)

lemma expected_appends_all:
  "\<forall>j. api_err E j (PagesUpdate tok pid) = None \<Longrightarrow>
   append_calls (expected_requests E tok pid i ns) =
     map (\<lambda>n. BlocksAppend tok pid (format_note E n)) ns"
  by (induction ns arbitrary: i) (simp_all add: append_calls_def is_append_def)

lemma flaky_simps:
  "api_err flaky_env 0 c = Some ''Request timed out''"
  "api_err flaky_env (Suc i) c = None"
  by (simp_all add: flaky_env_def)

lemma other_note_unsynced: "\<not> is_synced other_note"
  by (simp add: is_synced_def other_note_def)

lemma three_notes_unsynced:
  "updateUnsyncedNotes [sample_note, synced_note, other_note] = [sample_note, other_note]"
  by (simp add: updateUnsyncedNotes_def sample_simps other_note_unsynced)


lemma authenticate_accepted:
  assumes "openAuthSessionAsync E = Inr r" and "result_type r = ''success''"
    and "truthy (result_url r) = Some u" and "new_URL E u = Some ps"
    and "truthy (map_of ps ''error'') = None" and "truthy (map_of ps ''code'') = Some code"
    and "fetch_token E code = Inr resp" and "ok resp" and "json_body resp = Inr d"
    and "\<forall>k. setItem_err E k = None"
  shows "authenticate E w = (Inr True, snd (saveConfig E (token_config d) w))"
proof -
  have "authenticate_body E w = exchange E code w"
    using assms(1-6) by (rule authenticate_body_code)
  also have "\<dots> = (Inr True, snd (saveConfig E (token_config d) w))"
    using assms(7-10) by (rule exchange_accepted)
  finally show ?thesis
    by (rule authenticate_pass)
qed

lemma saved_items_other_keys:
  assumes "\<forall>k. setItem_err E k = None" "k \<notin> set read_keys"
  shows "items (snd (saveConfig E c w)) k = items w k"
  using assms
  by (auto simp add: saveConfig_ok read_keys_def Let_def split: option.splits)

lemma load_after_token_save:
  assumes "\<forall>k. setItem_err E k = None" "\<forall>k\<in>set read_keys. getItem_err E' k = None"
    "access_token d \<noteq> []"
  shows "\<exists>c'. fst (loadConfig E' (snd (saveConfig E (token_config d) w))) = Inr (Some c') \<and>
     accessToken c' = access_token d \<and> pageId c' = [] \<and> pageName c' = [] \<and>
     workspaceName c' = None"
  using assms
  by (auto simp add: saveConfig_ok loadConfig_ok token_config_def truthy_def or_empty_def Let_def
      split: option.splits)

lemma authenticate_granted:
  "authenticate (code_env granted) fresh_world =
     (Inr True, snd (saveConfig (code_env granted)
        (token_config \<lparr>access_token = ''secret_live'', owner_user_id = Some ''user-9'',
                        workspace_id = Some ''ws-9'', workspace_name = Some ''Home''\<rparr>)
        fresh_world))"
  by (rule authenticate_accepted[where
        r = "\<lparr>result_type = ''success'', result_url =
          Some ''speaktonote://auth?code=abc123&state=state_1700000000000''\<rparr>"
        and u = "''speaktonote://auth?code=abc123&state=state_1700000000000''"
        and ps = "[(''code'', ''abc123''), (''state'', ''state_1700000000000'')]"
        and code = "''abc123''" and resp = granted])
     (simp_all add: code_env_simps granted_simps truthy_def)

lemma items_after_granted:
  "items (snd (saveConfig (code_env granted)
        (token_config \<lparr>access_token = ''secret_live'', owner_user_id = Some ''user-9'',
                        workspace_id = Some ''ws-9'', workspace_name = Some ''Home''\<rparr>)
        fresh_world)) =
   [NOTION_TOKEN_KEY \<mapsto> ''secret_live'', NOTION_PAGE_ID_KEY \<mapsto> [],
    NOTION_PAGE_NAME_KEY \<mapsto> [], NOTION_USER_ID_KEY \<mapsto> ''user-9'',
    NOTION_WORKSPACE_ID_KEY \<mapsto> ''ws-9'']"
  by (simp add: saveConfig_ok code_env_simps token_config_def fresh_world_def truthy_def)

subsection \<open>The credential store\<close>

text \<open>
  C1. In every state, \<^verbatim>\<open>isConfigured()\<close> is true exactly when the cached record is not
  null and both its \<^verbatim>\<open>accessToken\<close> and its \<^verbatim>\<open>pageId\<close> are non-empty strings.
\<close>

theorem isConfigured_iff:
  "isConfigured w \<longleftrightarrow> (\<exists>c. config w = Some c \<and> accessToken c \<noteq> [] \<and> pageId c \<noteq> [])"
  by (simp add: isConfigured_def split: option.splits)

text \<open>A record with a token and a page is configured; the same record without a page, and
  no record at all, are not.\<close>

theorem isConfigured_iff_witness:
  "isConfigured connected_world \<and>
   \<not> isConfigured (connected_world\<lparr>config := Some (sample_config\<lparr>pageId := []\<rparr>)\<rparr>) \<and>
   \<not> isConfigured fresh_world"
  using isConfigured_iff[of connected_world]
    isConfigured_iff[of "connected_world\<lparr>config := Some (sample_config\<lparr>pageId := []\<rparr>)\<rparr>"]
    isConfigured_iff[of fresh_world]
  by (simp add: connected_world_def sample_config_def fresh_world_def)

text \<open>
  C4. Saving a record and loading it again does not give the record back in every field:
  there is no storage entry for \<^verbatim>\<open>workspaceName\<close>, so the loaded record has none. And
  a record whose access token is the empty string is loaded as null.
\<close>

theorem save_load_roundtrip_counterexample:
  "fst (saveConfig quiet_env sample_config fresh_world) = Inr () \<and>
   fst (loadConfig quiet_env (snd (saveConfig quiet_env sample_config fresh_world))) =
     Inr (Some (sample_config\<lparr>workspaceName := None\<rparr>)) \<and>
   sample_config\<lparr>workspaceName := None\<rparr> \<noteq> sample_config \<and>
   fst (loadConfig quiet_env
         (snd (saveConfig quiet_env (sample_config\<lparr>accessToken := []\<rparr>) fresh_world))) =
     Inr None"
  by (simp add: saveConfig_ok loadConfig_ok quiet_simps sample_config_def fresh_world_def
      truthy_def or_empty_def)

text \<open>
  C4, as the code has it. When no storage operation fails and the access token of the
  record is not empty, saving the record and loading it gives a record with the same
  \<^verbatim>\<open>accessToken\<close>, \<^verbatim>\<open>pageId\<close> and \<^verbatim>\<open>pageName\<close>, with the same \<^verbatim>\<open>userId\<close> and
  \<^verbatim>\<open>workspaceId\<close> where these were non-empty strings, and with no
  \<^verbatim>\<open>workspaceName\<close>.
\<close>

theorem save_load_fields:
  assumes "\<forall>k. setItem_err E k = None" and "\<forall>k. getItem_err E k = None"
    and "accessToken c \<noteq> []"
  shows "fst (saveConfig E c w) = Inr () \<and>
         (\<exists>c'. fst (loadConfig E (snd (saveConfig E c w))) = Inr (Some c') \<and>
           accessToken c' = accessToken c \<and> pageId c' = pageId c \<and> pageName c' = pageName c \<and>
           (\<forall>u. truthy (userId c) = Some u \<longrightarrow> userId c' = Some u) \<and>
           (\<forall>i. truthy (workspaceId c) = Some i \<longrightarrow> workspaceId c' = Some i) \<and>
           workspaceName c' = None)"
  using assms
  by (auto simp add: saveConfig_ok loadConfig_ok truthy_def or_empty_def Let_def
      split: option.splits if_splits)

theorem save_load_fields_witness:
  "\<exists>c'. fst (loadConfig quiet_env (snd (saveConfig quiet_env sample_config fresh_world))) =
           Inr (Some c') \<and>
         accessToken c' = ''tok_a'' \<and> pageId c' = ''page-7'' \<and> pageName c' = ''Voice notes'' \<and>
         userId c' = Some ''user-1'' \<and> workspaceId c' = Some ''ws-1'' \<and>
         workspaceName c' = None"
  using save_load_fields[of quiet_env sample_config fresh_world]
  by (simp add: quiet_simps sample_config_def truthy_def)

text \<open>
  C5. \<^verbatim>\<open>disconnect\<close> removes three of the five entries. On a stored connection it
  succeeds, clears the cache, and the next load gives null, but the entries of the user
  id and of the workspace id are still there.
\<close>

theorem disconnect_keeps_identity_entries:
  "fst (disconnect quiet_env connected_world) = Inr () \<and>
   config (snd (disconnect quiet_env connected_world)) = None \<and>
   fst (loadConfig quiet_env (snd (disconnect quiet_env connected_world))) = Inr None \<and>
   map (items connected_world) read_keys =
     [Some ''tok_a'', Some ''page-7'', Some ''Voice notes'', Some ''user-1'', Some ''ws-1''] \<and>
   map (items (snd (disconnect quiet_env connected_world))) read_keys =
     [None, None, None, Some ''user-1'', Some ''ws-1'']"
  by (simp add: load_after_disconnect quiet_simps)
     (simp add: disconnect_ok quiet_simps connected_world_def read_keys_def)

text \<open>
  C8. A failing read is not propagated by \<^verbatim>\<open>loadConfig\<close>: with a stored connection and
  storage whose reads throw, it resolves to null.
\<close>

theorem loadConfig_swallows_read_failure:
  "getItem_err read_fail_env NOTION_TOKEN_KEY = Some ''database or disk is full'' \<and>
   items connected_world NOTION_TOKEN_KEY = Some ''tok_a'' \<and>
   loadConfig read_fail_env connected_world = (Inr None, connected_world)"
  by (simp add: loadConfig_read_error[where k = NOTION_TOKEN_KEY] read_keys_def
      read_fail_env_def connected_world_def)

text \<open>
  C8, as the code has it. When one of the writes \<^verbatim>\<open>saveConfig\<close> performs for a record
  fails, \<^verbatim>\<open>saveConfig\<close> throws an error whose message is
  \<^verbatim>\<open>Failed to save user Notion configuration: \<close> followed by the message of a failing
  write. When one of the five reads of \<^verbatim>\<open>loadConfig\<close> fails, \<^verbatim>\<open>loadConfig\<close> resolves to
  null and changes nothing.
\<close>

theorem save_raises_load_returns_null:
  "(k \<in> set (written_keys c) \<and> setItem_err E k \<noteq> None \<longrightarrow>
      (\<exists>k' m. k' \<in> set (written_keys c) \<and> setItem_err E k' = Some m \<and>
         fst (saveConfig E c w) =
           Inl (Error (''Failed to save user Notion configuration: '' @ m)))) \<and>
   (k \<in> set read_keys \<and> getItem_err E k \<noteq> None \<longrightarrow> loadConfig E w = (Inr None, w))"
  using saveConfig_write_error[of k c E w] loadConfig_read_error[of k E w]
  by blast

theorem save_raises_load_returns_null_witness:
  "fst (saveConfig write_fail_env sample_config fresh_world) =
     Inl (Error ''Failed to save user Notion configuration: database or disk is full'') \<and>
   loadConfig read_fail_env connected_world = (Inr None, connected_world)"
  using save_raises_load_returns_null[of NOTION_TOKEN_KEY sample_config write_fail_env fresh_world]
    save_raises_load_returns_null[of NOTION_TOKEN_KEY sample_config read_fail_env connected_world]
  by (auto simp add: written_keys_def read_keys_def write_fail_env_def read_fail_env_def)

subsection \<open>The OAuth handshake\<close>

text \<open>
  C3. On a fresh installation \<^verbatim>\<open>loadConfig\<close> gives null. When the redirect URL carries
  \<^verbatim>\<open>error=access_denied\<close>, and likewise when the token endpoint answers 401, the error
  thrown inside \<^verbatim>\<open>authenticate\<close> is caught by its own \<^verbatim>\<open>catch\<close> block:
  \<^verbatim>\<open>authenticate\<close> resolves to true, and the next \<^verbatim>\<open>loadConfig\<close> gives the fabricated
  test record instead of null.
\<close>

theorem authenticate_failure_fabricates_credentials:
  "fst (loadConfig denied_env fresh_world) = Inr None \<and>
   fst (authenticate denied_env fresh_world) = Inr True \<and>
   fst (loadConfig denied_env (snd (authenticate denied_env fresh_world))) =
     Inr (Some \<lparr>accessToken = ''secret_test_1700000000001'', pageId = ''test-page-id'',
                 pageName = ''Test Page'', userId = Some ''user_test_1700000000002'',
                 workspaceId = Some ''workspace_test_1700000000003'', workspaceName = None\<rparr>) \<and>
   status unauthorized = 401 \<and>
   fst (loadConfig (code_env unauthorized) fresh_world) = Inr None \<and>
   fst (authenticate (code_env unauthorized) fresh_world) = Inr True \<and>
   fst (loadConfig (code_env unauthorized) (snd (authenticate (code_env unauthorized) fresh_world))) =
     Inr (Some \<lparr>accessToken = ''secret_test_1700000000001'', pageId = ''test-page-id'',
                 pageName = ''Test Page'', userId = Some ''user_test_1700000000002'',
                 workspaceId = Some ''workspace_test_1700000000003'', workspaceName = None\<rparr>)"
proof -
  have d: "fst (loadConfig denied_env (snd (authenticate denied_env fresh_world))) =
     Inr (Some \<lparr>accessToken = ''secret_test_1700000000001'', pageId = ''test-page-id'',
                 pageName = ''Test Page'', userId = Some ''user_test_1700000000002'',
                 workspaceId = Some ''workspace_test_1700000000003'', workspaceName = None\<rparr>)"
    unfolding authenticate_denied snd_conv
    by (rule load_after_fallback[OF _ items_after_fallback]) (simp_all add: denied_env_simps)
  have u: "fst (loadConfig (code_env unauthorized)
        (snd (authenticate (code_env unauthorized) fresh_world))) =
     Inr (Some \<lparr>accessToken = ''secret_test_1700000000001'', pageId = ''test-page-id'',
                 pageName = ''Test Page'', userId = Some ''user_test_1700000000002'',
                 workspaceId = Some ''workspace_test_1700000000003'', workspaceName = None\<rparr>)"
    unfolding authenticate_unauthorized snd_conv
    by (rule load_after_fallback[OF _ items_after_fallback]) (simp_all add: code_env_simps)
  have l1: "fst (loadConfig denied_env fresh_world) = Inr None"
    by (rule load_fresh) (simp add: denied_env_simps)
  have l2: "fst (loadConfig (code_env unauthorized) fresh_world) = Inr None"
    by (rule load_fresh) (simp add: code_env_simps)
  have a1: "fst (authenticate denied_env fresh_world) = Inr True"
    by (simp add: authenticate_denied)
  have a2: "fst (authenticate (code_env unauthorized) fresh_world) = Inr True"
    by (simp add: authenticate_unauthorized)
  have s: "status unauthorized = 401"
    by (simp add: unauthorized_def)
  from l1 a1 d s l2 a2 u show ?thesis
    by (intro conjI)
qed

text \<open>
  C6. After a successful exchange whose response names the workspace \<^verbatim>\<open>Home\<close>, storage
  holds the five entries and nothing else, none of them the workspace name, and the next
  \<^verbatim>\<open>loadConfig\<close> gives a record without a workspace name: the workspace name is not
  persisted.
\<close>

theorem authenticate_workspace_name_not_stored:
  "json_body granted =
     Inr \<lparr>access_token = ''secret_live'', owner_user_id = Some ''user-9'',
          workspace_id = Some ''ws-9'', workspace_name = Some ''Home''\<rparr> \<and>
   fst (authenticate (code_env granted) fresh_world) = Inr True \<and>
   dom (items (snd (authenticate (code_env granted) fresh_world))) = set read_keys \<and>
   map (items (snd (authenticate (code_env granted) fresh_world))) read_keys =
     [Some ''secret_live'', Some [], Some [], Some ''user-9'', Some ''ws-9''] \<and>
   fst (loadConfig quiet_env (snd (authenticate (code_env granted) fresh_world))) =
     Inr (Some \<lparr>accessToken = ''secret_live'', pageId = [], pageName = [],
                 userId = Some ''user-9'', workspaceId = Some ''ws-9'',
                 workspaceName = None\<rparr>)"
proof -
  have l: "fst (loadConfig quiet_env (snd (authenticate (code_env granted) fresh_world))) =
     Inr (Some \<lparr>accessToken = ''secret_live'', pageId = [], pageName = [],
                 userId = Some ''user-9'', workspaceId = Some ''ws-9'',
                 workspaceName = None\<rparr>)"
    unfolding authenticate_granted snd_conv
    by (simp add: loadConfig_ok quiet_simps items_after_granted truthy_def or_empty_def)
  have d: "dom (items (snd (authenticate (code_env granted) fresh_world))) = set read_keys"
    unfolding authenticate_granted snd_conv items_after_granted
    by (auto simp add: read_keys_def)
  have m: "map (items (snd (authenticate (code_env granted) fresh_world))) read_keys =
     [Some ''secret_live'', Some [], Some [], Some ''user-9'', Some ''ws-9'']"
    unfolding authenticate_granted snd_conv items_after_granted
    by (simp add: read_keys_def)
  have a: "fst (authenticate (code_env granted) fresh_world) = Inr True"
    by (simp add: authenticate_granted)
  from granted_simps(2) a d m l show ?thesis
    by (intro conjI)
qed

text \<open>
  C6, as the code has it. When the browser comes back with a code, the token endpoint
  answers with a 2xx status and a JSON body, and the storage writes succeed,
  \<^verbatim>\<open>authenticate\<close> resolves to true and has saved, through \<^verbatim>\<open>saveConfig\<close>, the record
  with the returned access token, the user id, the workspace id and the workspace name
  (\<^verbatim>\<open>User Workspace\<close> when the response has none), with \<^verbatim>\<open>pageId\<close> and \<^verbatim>\<open>pageName\<close>
  empty. This record is the cached one. In storage are the token, the empty page id and
  page name, and the user id and workspace id when they are non-empty; no other entry is
  changed, so the workspace name is in the cache only, and a later \<^verbatim>\<open>loadConfig\<close> gives
  the record without it.
\<close>

theorem authenticate_success_persists:
  assumes "openAuthSessionAsync E = Inr r" and "result_type r = ''success''"
    and "truthy (result_url r) = Some u" and "new_URL E u = Some ps"
    and "truthy (map_of ps ''error'') = None" and "truthy (map_of ps ''code'') = Some code"
    and "fetch_token E code = Inr resp" and "ok resp" and "json_body resp = Inr d"
    and "\<forall>k. setItem_err E k = None"
  shows "fst (authenticate E w) = Inr True \<and>
    (\<exists>c. config (snd (authenticate E w)) = Some c \<and>
       accessToken c = access_token d \<and> pageId c = [] \<and> pageName c = [] \<and>
       userId c = owner_user_id d \<and> workspaceId c = workspace_id d \<and>
       workspaceName c = Some (case truthy (workspace_name d) of
                                 Some n \<Rightarrow> n | None \<Rightarrow> ''User Workspace'')) \<and>
    items (snd (authenticate E w)) NOTION_TOKEN_KEY = Some (access_token d) \<and>
    items (snd (authenticate E w)) NOTION_PAGE_ID_KEY = Some [] \<and>
    items (snd (authenticate E w)) NOTION_PAGE_NAME_KEY = Some [] \<and>
    (\<forall>i. truthy (owner_user_id d) = Some i \<longrightarrow>
       items (snd (authenticate E w)) NOTION_USER_ID_KEY = Some i) \<and>
    (\<forall>i. truthy (workspace_id d) = Some i \<longrightarrow>
       items (snd (authenticate E w)) NOTION_WORKSPACE_ID_KEY = Some i) \<and>
    (\<forall>k. k \<notin> set read_keys \<longrightarrow> items (snd (authenticate E w)) k = items w k) \<and>
    ((\<forall>k\<in>set read_keys. getItem_err E' k = None) \<and> access_token d \<noteq> [] \<longrightarrow>
       (\<exists>c'. fst (loadConfig E' (snd (authenticate E w))) = Inr (Some c') \<and>
          accessToken c' = access_token d \<and> pageId c' = [] \<and> pageName c' = [] \<and>
          workspaceName c' = None))"
proof -
  have a: "authenticate E w = (Inr True, snd (saveConfig E (token_config d) w))"
    using assms by (rule authenticate_accepted)
  have other: "\<forall>k. k \<notin> set read_keys \<longrightarrow> items (snd (authenticate E w)) k = items w k"
    unfolding a snd_conv using saved_items_other_keys[OF assms(10)] by blast
  have load: "(\<forall>k\<in>set read_keys. getItem_err E' k = None) \<and> access_token d \<noteq> [] \<longrightarrow>
       (\<exists>c'. fst (loadConfig E' (snd (authenticate E w))) = Inr (Some c') \<and>
          accessToken c' = access_token d \<and> pageId c' = [] \<and> pageName c' = [] \<and>
          workspaceName c' = None)"
    unfolding a snd_conv using load_after_token_save[OF assms(10), of E' d w] by blast
  have main: "fst (authenticate E w) = Inr True \<and>
    (\<exists>c. config (snd (authenticate E w)) = Some c \<and>
       accessToken c = access_token d \<and> pageId c = [] \<and> pageName c = [] \<and>
       userId c = owner_user_id d \<and> workspaceId c = workspace_id d \<and>
       workspaceName c = Some (case truthy (workspace_name d) of
                                 Some n \<Rightarrow> n | None \<Rightarrow> ''User Workspace'')) \<and>
    items (snd (authenticate E w)) NOTION_TOKEN_KEY = Some (access_token d) \<and>
    items (snd (authenticate E w)) NOTION_PAGE_ID_KEY = Some [] \<and>
    items (snd (authenticate E w)) NOTION_PAGE_NAME_KEY = Some [] \<and>
    (\<forall>i. truthy (owner_user_id d) = Some i \<longrightarrow>
       items (snd (authenticate E w)) NOTION_USER_ID_KEY = Some i) \<and>
    (\<forall>i. truthy (workspace_id d) = Some i \<longrightarrow>
       items (snd (authenticate E w)) NOTION_WORKSPACE_ID_KEY = Some i)"
    unfolding a using assms(10)
    by (auto simp add: saveConfig_ok token_config_def Let_def split: option.splits)
  from main other load show ?thesis by blast
qed

theorem authenticate_success_persists_witness:
  "fst (authenticate (code_env granted) fresh_world) = Inr True \<and>
   config (snd (authenticate (code_env granted) fresh_world)) =
     Some \<lparr>accessToken = ''secret_live'', pageId = [], pageName = [],
           userId = Some ''user-9'', workspaceId = Some ''ws-9'', workspaceName = Some ''Home''\<rparr> \<and>
   items (snd (authenticate (code_env granted) fresh_world)) NOTION_TOKEN_KEY = Some ''secret_live'' \<and>
   items (snd (authenticate (code_env granted) fresh_world)) NOTION_PAGE_ID_KEY = Some [] \<and>
   items (snd (authenticate (code_env granted) fresh_world)) NOTION_USER_ID_KEY = Some ''user-9'' \<and>
   items (snd (authenticate (code_env granted) fresh_world)) NOTION_WORKSPACE_ID_KEY = Some ''ws-9'' \<and>
   (\<exists>c'. fst (loadConfig quiet_env (snd (authenticate (code_env granted) fresh_world))) =
            Inr (Some c') \<and> accessToken c' = ''secret_live'' \<and> workspaceName c' = None)"
  using authenticate_success_persists[of "code_env granted" "\<lparr>result_type = ''success'',
         result_url = Some ''speaktonote://auth?code=abc123&state=state_1700000000000''\<rparr>"
       "''speaktonote://auth?code=abc123&state=state_1700000000000''"
       "[(''code'', ''abc123''), (''state'', ''state_1700000000000'')]" "''abc123''" granted
       "\<lparr>access_token = ''secret_live'', owner_user_id = Some ''user-9'',
                       workspace_id = Some ''ws-9'', workspace_name = Some ''Home''\<rparr>"
       fresh_world quiet_env]
  by (auto simp add: code_env_simps granted_simps quiet_simps truthy_def)

subsection \<open>The content client\<close>




subsection \<open>Syncing notes\<close>

text \<open>
  C2. On a fresh installation the service is not configured. \<^verbatim>\<open>syncNote\<close> then sends no
  request and changes nothing, but it does not fail: the error it throws is caught by its
  own \<^verbatim>\<open>catch\<close> block and it resolves to true.
\<close>

theorem syncNote_unconfigured_resolves_true:
  "\<not> isConfigured fresh_world \<and>
   syncNote quiet_env sample_note fresh_world = (Inr True, fresh_world)"
proof -
  have "\<not> isConfigured fresh_world"
    by (simp add: isConfigured_def fresh_world_def)
  then show ?thesis
    by (simp add: syncNote_not_configured)
qed

text \<open>
  C7. With a stored connection, two notes of which one is synced, and a Notion API that
  rejects page updates, the batch sends no append request at all, although one note is
  unsynced.
\<close>

theorem handleSyncAll_append_count_counterexample:
  "isConfigured connected_world \<and>
   length [synced_note, sample_note] - length (filter is_synced [synced_note, sample_note]) = 1 \<and>
   requests (snd (handleSyncAll update_fail_env [synced_note, sample_note] connected_world)) =
     [PagesUpdate ''tok_a'' ''page-7''] \<and>
   append_calls
     (requests (snd (handleSyncAll update_fail_env [synced_note, sample_note] connected_world))) = []"
proof -
  have c: "config connected_world = Some sample_config" "pageId sample_config \<noteq> []"
    "accessToken sample_config \<noteq> []"
    by (simp_all add: sample_simps)
  have "snd (handleSyncAll update_fail_env [synced_note, sample_note] connected_world) =
      snd (syncNote update_fail_env sample_note connected_world)"
    by (simp add: handleSyncAll_ready(1)[OF c(1,2)] sample_simps sync_loop_step
        del: sync_loop.simps(2))
  moreover have "requests (snd (syncNote update_fail_env sample_note connected_world)) =
      [PagesUpdate ''tok_a'' ''page-7'']"
    unfolding syncNote_configured[OF c]
    by (simp add: Let_def sample_simps update_fail_env_def)
  moreover have "isConfigured connected_world"
    by (simp add: isConfigured_def sample_simps)
  ultimately show ?thesis
    by (simp add: sample_simps append_calls_def is_append_def)
qed

text \<open>
  C7, as the code has it. Let a page be selected and the access token be non-empty, and
  let \<open>N\<close> notes be given of which \<open>M\<close> are synced. The batch syncs the \<open>N - M\<close>
  unsynced notes one after the other in the order of the list and never stops early: the
  requests it sends are exactly \<open>expected_requests\<close>, for each unsynced note one page
  update followed by the append of that note exactly when the update is accepted, and
  the blocks it adds are exactly \<open>expected_blocks\<close>. So there are exactly \<open>N - M\<close> page
  updates and at most \<open>N - M\<close> appends; when no page update is rejected the appends are
  those of all unsynced notes. Every unsynced note is counted once, and when there is an
  unsynced note the counts are shown in an alert.
\<close>

theorem handleSyncAll_attempts:
  assumes "config w = Some c" and "pageId c \<noteq> []" and "accessToken c \<noteq> []"
  shows "\<exists>new. new = expected_requests E (client_token w c) (pageId c) (length (requests w))
                      (updateUnsyncedNotes notes) \<and>
     requests (snd (handleSyncAll E notes w)) = requests w @ new \<and>
     page_blocks (snd (handleSyncAll E notes w)) = page_blocks w @
       expected_blocks E (client_token w c) (pageId c) (length (requests w))
         (updateUnsyncedNotes notes) \<and>
     update_calls new =
       replicate (length notes - length (filter is_synced notes))
         (PagesUpdate (client_token w c) (pageId c)) \<and>
     ((\<forall>i. api_err E i (PagesUpdate (client_token w c) (pageId c)) = None) \<longrightarrow>
        append_calls new =
          map (\<lambda>n. BlocksAppend (client_token w c) (pageId c) (format_note E n))
            (updateUnsyncedNotes notes) \<and>
        length (append_calls new) = length notes - length (filter is_synced notes)) \<and>
     length (append_calls new) \<le> length notes - length (filter is_synced notes) \<and>
     successes (fst (handleSyncAll E notes w)) + failures (fst (handleSyncAll E notes w)) =
       length notes - length (filter is_synced notes) \<and>
     (updateUnsyncedNotes notes \<noteq> [] \<longrightarrow>
        alert (fst (handleSyncAll E notes w)) =
          Some (fst (show_results (successes (fst (handleSyncAll E notes w)))
                                  (failures (fst (handleSyncAll E notes w))))))"
proof -
  let ?new = "expected_requests E (client_token w c) (pageId c) (length (requests w))
                (updateUnsyncedNotes notes)"
  note exact = sync_loop_exact[OF assms, of E "updateUnsyncedNotes notes" 0 0]
  have req: "requests (snd (handleSyncAll E notes w)) = requests w @ ?new"
    and blk: "page_blocks (snd (handleSyncAll E notes w)) = page_blocks w @
       expected_blocks E (client_token w c) (pageId c) (length (requests w))
         (updateUnsyncedNotes notes)"
    using exact by (simp_all add: handleSyncAll_ready(1)[OF assms(1,2)])
  have upd: "update_calls ?new =
       replicate (length notes - length (filter is_synced notes))
         (PagesUpdate (client_token w c) (pageId c))"
    by (simp add: expected_updates unsynced_length)
  have app: "(\<forall>i. api_err E i (PagesUpdate (client_token w c) (pageId c)) = None) \<longrightarrow>
        append_calls ?new =
          map (\<lambda>n. BlocksAppend (client_token w c) (pageId c) (format_note E n))
            (updateUnsyncedNotes notes) \<and>
        length (append_calls ?new) = length notes - length (filter is_synced notes)"
    by (simp add: expected_appends_all unsynced_length)
  have le: "length (append_calls ?new) \<le> length notes - length (filter is_synced notes)"
    using expected_appends_le[of E "client_token w c" "pageId c" "length (requests w)"
        "updateUnsyncedNotes notes"]
    by (simp add: unsynced_length)
  have counts: "successes (fst (handleSyncAll E notes w)) +
      failures (fst (handleSyncAll E notes w)) = length notes - length (filter is_synced notes)"
    by (simp add: handleSyncAll_outcome[OF assms(1,2)] unsynced_length)
  have shown: "updateUnsyncedNotes notes \<noteq> [] \<longrightarrow>
      alert (fst (handleSyncAll E notes w)) =
        Some (fst (show_results (successes (fst (handleSyncAll E notes w)))
                                (failures (fst (handleSyncAll E notes w)))))"
    using handleSyncAll_ready(5)[OF assms(1,2)] by blast
  from req blk upd app le counts shown show ?thesis
    by (intro exI[of _ ?new] conjI refl)
qed

theorem handleSyncAll_attempts_witness:
  "config connected_world = Some sample_config \<and> pageId sample_config \<noteq> [] \<and>
   accessToken sample_config \<noteq> [] \<and>
   requests (snd (handleSyncAll flaky_env [sample_note, synced_note, other_note]
                    connected_world)) =
     [PagesUpdate ''tok_a'' ''page-7'', PagesUpdate ''tok_a'' ''page-7'',
      BlocksAppend ''tok_a'' ''page-7'' (format_note flaky_env other_note)] \<and>
   page_blocks (snd (handleSyncAll flaky_env [sample_note, synced_note, other_note]
                    connected_world)) =
     [(''page-7'', format_note flaky_env other_note)] \<and>
   successes (fst (handleSyncAll flaky_env [sample_note, synced_note, other_note]
                    connected_world)) +
   failures (fst (handleSyncAll flaky_env [sample_note, synced_note, other_note]
                    connected_world)) = 2"
  using handleSyncAll_attempts[of connected_world sample_config flaky_env
      "[sample_note, synced_note, other_note]"]
  by (simp add: sample_simps flaky_simps three_notes_unsynced other_note_unsynced)

text \<open>
  C10. \<^verbatim>\<open>syncNote\<close> resolves to true in every state, for every note and whatever the
  Notion API answers. So when a page is selected, the batch marks every unsynced note as
  synced and counts no failure; and when every append request is rejected, it does so
  although no block has been added to the page.
\<close>

theorem syncNote_never_raises:
  "fst (syncNote E note w) = Inr True \<and>
   (config w = Some c \<and> pageId c \<noteq> [] \<longrightarrow>
      list_all is_synced (attempted (fst (handleSyncAll E notes w))) \<and>
      length (attempted (fst (handleSyncAll E notes w))) = length (updateUnsyncedNotes notes) \<and>
      successes (fst (handleSyncAll E notes w)) = length (updateUnsyncedNotes notes) \<and>
      failures (fst (handleSyncAll E notes w)) = 0 \<and>
      ((\<forall>i t b x. api_err E i (BlocksAppend t b x) \<noteq> None) \<longrightarrow>
         page_blocks (snd (handleSyncAll E notes w)) = page_blocks w))"
proof -
  have "page_blocks (snd (handleSyncAll E notes w)) = page_blocks w"
    if "config w = Some c" "pageId c \<noteq> []"
      "\<forall>i t b x. api_err E i (BlocksAppend t b x) \<noteq> None"
    using that by (simp add: handleSyncAll_ready(1) sync_loop_blocks_unchanged)
  then show ?thesis
    using handleSyncAll_outcome[of w c E "notes"]
    by (simp add: syncNote_returns_true)
qed

theorem syncNote_never_raises_witness:
  "fst (syncNote append_fail_env sample_note connected_world) = Inr True \<and>
   list_all is_synced
     (attempted (fst (handleSyncAll append_fail_env [synced_note, sample_note] connected_world))) \<and>
   length
     (attempted (fst (handleSyncAll append_fail_env [synced_note, sample_note] connected_world))) = 1 \<and>
   successes (fst (handleSyncAll append_fail_env [synced_note, sample_note] connected_world)) = 1 \<and>
   failures (fst (handleSyncAll append_fail_env [synced_note, sample_note] connected_world)) = 0 \<and>
   page_blocks (snd (handleSyncAll append_fail_env [synced_note, sample_note] connected_world)) = []"
  using syncNote_never_raises[of append_fail_env sample_note connected_world sample_config
      "[synced_note, sample_note]"]
  by (simp add: sample_simps append_fail_env_def)

end
